theory Spec2Isabelle
  imports Main "HOL-Library.Char_ord" "HOL-Library.List_Lexorder"
begin

section \<open>Characters and strings as Python sees them\<close>

text \<open>
  File names, column names and cell texts are modelled as \<open>string\<close>, a character standing
  for the code point of the same number: the model covers Python strings whose code
  points lie below 256. On these code points the classes below are those of Python's
  \<open>re\<close> and \<open>str\<close>: \<open>\d\<close> is \<open>0-9\<close>; \<open>\w\<close> is an ASCII letter or digit, the underscore, or
  one of the code points 170, 178, 179, 181, 185, 186, 188 to 190, 192 to 214, 216 to 246
  and 248 to 255 (the letters and numerics of Latin-1); \<open>str.isspace\<close>, which decides what
  \<open>str.strip\<close> removes, holds for 9 to 13, 28 to 32, 133 and 160; \<open>str.lower\<close> adds 32 to
  65 to 90, 192 to 214 and 216 to 222 and leaves every other code point as it is.
\<close>

definition is_digit :: "char \<Rightarrow> bool" where
  "is_digit c = (let n = (of_char c :: nat) in 48 \<le> n \<and> n \<le> 57)"

definition is_word :: "char \<Rightarrow> bool" where
  "is_word c = (let n = (of_char c :: nat) in
     (48 \<le> n \<and> n \<le> 57) \<or> (65 \<le> n \<and> n \<le> 90) \<or> (97 \<le> n \<and> n \<le> 122) \<or> n = 95
     \<or> n = 170 \<or> n = 178 \<or> n = 179 \<or> n = 181 \<or> n = 185 \<or> n = 186
     \<or> (188 \<le> n \<and> n \<le> 190) \<or> (192 \<le> n \<and> n \<le> 214) \<or> (216 \<le> n \<and> n \<le> 246)
     \<or> (248 \<le> n \<and> n \<le> 255))"

definition is_space :: "char \<Rightarrow> bool" where
  "is_space c = (let n = (of_char c :: nat) in
     (9 \<le> n \<and> n \<le> 13) \<or> (28 \<le> n \<and> n \<le> 32) \<or> n = 133 \<or> n = 160)"

definition lower_char :: "char \<Rightarrow> char" where
  "lower_char c = (let n = (of_char c :: nat) in
     if (65 \<le> n \<and> n \<le> 90) \<or> (192 \<le> n \<and> n \<le> 214) \<or> (216 \<le> n \<and> n \<le> 222)
     then char_of (n + 32) else c)"

definition lower :: "string \<Rightarrow> string" where
  "lower s = map lower_char s"

text \<open>\<open>s.strip()\<close>: leading and trailing whitespace removed.\<close>

definition strip :: "string \<Rightarrow> string" where
  "strip s = rev (dropWhile is_space (rev (dropWhile is_space s)))"

text \<open>\<open>p in s\<close> on strings: \<open>p\<close> occurs as a contiguous substring of \<open>s\<close>.\<close>

fun str_in :: "string \<Rightarrow> string \<Rightarrow> bool" where
  "str_in p [] = (p = [])"
| "str_in p (c # cs) = (take (length p) (c # cs) = p \<or> str_in p cs)"

section \<open>The date pattern of \<open>process_csv_file\<close>\<close>

text \<open>
  \<open>re.search(r'\b(\d{2})(\d{2})(\d{4})\b', filename)\<close> tries every start position from
  the left. At a position the pattern asks for a word boundary, eight digits and a word
  boundary again; every part has a fixed length, so there is nothing to backtrack over.
  A word boundary lies between two positions exactly one of which holds a word
  character; beyond either end of the string there is none.

  \<open>match_here prev s\<close> is the attempt at the position whose remaining text is \<open>s\<close> and
  whose preceding character is \<open>prev\<close> (\<open>None\<close> at the start of the string).
\<close>

definition word_opt :: "char option \<Rightarrow> bool" where
  "word_opt p = (case p of None \<Rightarrow> False | Some c \<Rightarrow> is_word c)"

definition word_boundary :: "char option \<Rightarrow> string \<Rightarrow> bool" where
  "word_boundary prev s = (word_opt prev \<noteq> word_opt (case s of [] \<Rightarrow> None | c # _ \<Rightarrow> Some c))"

fun match_here :: "char option \<Rightarrow> string \<Rightarrow> (string \<times> string \<times> string) option" where
  "match_here prev (d1 # d2 # m1 # m2 # y1 # y2 # y3 # y4 # rest) =
     (if word_boundary prev (d1 # d2 # m1 # m2 # y1 # y2 # y3 # y4 # rest)
         \<and> list_all is_digit [d1, d2, m1, m2, y1, y2, y3, y4]
         \<and> word_boundary (Some y4) rest
      then Some ([d1, d2], [m1, m2], [y1, y2, y3, y4]) else None)"
| "match_here prev s = None"

fun re_search :: "char option \<Rightarrow> string \<Rightarrow> (string \<times> string \<times> string) option" where
  "re_search prev [] = match_here prev []"
| "re_search prev (c # cs) =
     (case match_here prev (c # cs) of
        Some m \<Rightarrow> Some m
      | None \<Rightarrow> re_search (Some c) cs)"

text \<open>Line 19: the three groups joined by dashes, or the sentinel.\<close>

definition formatted_date :: "string \<Rightarrow> string" where
  "formatted_date filename =
     (case re_search None filename of
        Some (g1, g2, g3) \<Rightarrow> g1 @ ''-'' @ g2 @ ''-'' @ g3
      | None \<Rightarrow> ''Unknown'')"

section \<open>Values, frames and uploaded files\<close>

text \<open>
  The values that occur in the tables of this program: strings, integers, the missing
  value \<open>NaN\<close> of pandas, and (after line 71 of \<open>app.py\<close>) timestamps at midnight, given
  by year, month and day, with \<open>NaT\<close> for the missing timestamp. Floating-point and
  boolean cells are outside the model.
\<close>

type_synonym date = "nat \<times> nat \<times> nat"

datatype pyval = Str string | Num int | NaN | Timestamp date | NaT

text \<open>
  A \<open>DataFrame\<close> is its ordered column labels and its rows, a row giving the value
  under every label. A Python \<open>dict\<close> literal is kept as an association list in
  insertion order.
\<close>

record frame =
  columns :: "string list"
  data :: "(string \<Rightarrow> pyval) list"

type_synonym dict = "(string \<times> pyval) list"

definition get :: "dict \<Rightarrow> string \<Rightarrow> pyval" where
  "get d k = (case map_of d k of Some v \<Rightarrow> v | None \<Rightarrow> NaN)"

text \<open>\<open>df[c]\<close>: the column as the list of its values, top to bottom.\<close>

definition col :: "frame \<Rightarrow> string \<Rightarrow> pyval list" where
  "col df c = map (\<lambda>r. r c) (data df)"

datatype exn = AttributeError | ReadError | IndexError | TypeError | ValueError

text \<open>
  The CSV parser \<open>pd.read_csv\<close> belongs to pandas, not to this program. An uploaded file
  is therefore represented by its \<open>name\<close> attribute (\<open>None\<close> for an object without one,
  where \<open>file.name\<close> raises) and by what \<open>pd.read_csv\<close> makes of its content: an exception
  (empty or malformed data, a decoding or I/O error) or the parsed frame.
\<close>

record uploaded_file =
  name :: "string option"
  read_csv :: "exn + frame"

section \<open>\<open>process_csv_file\<close>\<close>

text \<open>\<open>str(v)\<close> for the values of the model; no string of digits is needed beyond integers.\<close>

fun str_nat :: "nat \<Rightarrow> string" where
  "str_nat n = (if n < 10 then [char_of (48 + n)] else str_nat (n div 10) @ [char_of (48 + n mod 10)])"

declare str_nat.simps [simp del]

definition zfill :: "nat \<Rightarrow> string \<Rightarrow> string" where
  "zfill w s = replicate (w - length s) CHR ''0'' @ s"

fun py_str :: "pyval \<Rightarrow> string" where
  "py_str (Str s) = s"
| "py_str (Num i) = (if i < 0 then ''-'' @ str_nat (nat (- i)) else str_nat (nat i))"
| "py_str NaN = ''nan''"
| "py_str (Timestamp (y, m, d)) =
     zfill 4 (str_nat y) @ ''-'' @ zfill 2 (str_nat m) @ ''-'' @ zfill 2 (str_nat d) @ '' 00:00:00''"
| "py_str NaT = ''NaT''"

text \<open>\<open>next((col for col in df.columns if key in col.lower()), None)\<close>\<close>

definition sniff :: "string \<Rightarrow> frame \<Rightarrow> string option" where
  "sniff key df = find (\<lambda>c. str_in key (lower c)) (columns df)"

text \<open>\<open>series.iloc[0]\<close> raises \<open>IndexError\<close> on a series without rows.\<close>

definition iloc0 :: "pyval list \<Rightarrow> exn + pyval" where
  "iloc0 vs = (case vs of [] \<Rightarrow> Inl IndexError | v # _ \<Rightarrow> Inr v)"

text \<open>
  Lines 31 and 32: the status column converted with \<open>astype(str).str.strip()\<close>, then
  the number of its entries equal to \<open>'New'\<close>.
\<close>

definition count_new :: "pyval list \<Rightarrow> int" where
  "count_new vs = int (length (filter (\<lambda>s. s = ''New'') (map (\<lambda>v. strip (py_str v)) vs)))"

text \<open>
  The local variables the \<open>except\<close> branch asks \<open>locals()\<close> for, \<open>filename\<close> and
  \<open>formatted_date\<close> (the field \<open>formatted\<close>): \<open>None\<close> while the name is not yet bound.
\<close>

record locals =
  filename :: "string option"
  formatted :: "string option"

text \<open>
  The body of the \<open>try\<close> (lines 17 to 41). An exception is \<open>Inl\<close>, together with
  the local variables bound when it was raised. The two conditionals \<open>if vessel_column\<close> and
  \<open>if status_column\<close> test a name that contains \<open>vessel\<close> or \<open>status\<close>, hence a non-empty
  string, so they are true exactly when a column was found.
\<close>

definition try_body :: "uploaded_file \<Rightarrow> (exn \<times> locals) + dict" where
  "try_body f =
     (case name f of
        None \<Rightarrow> Inl (AttributeError, \<lparr>filename = None, formatted = None\<rparr>)
      | Some fname \<Rightarrow>
          let fdate = formatted_date fname;
              bound = \<lparr>filename = Some fname, formatted = Some fdate\<rparr>
          in (case read_csv f of
                Inl e \<Rightarrow> Inl (e, bound)
              | Inr df \<Rightarrow>
                  (case (case sniff ''vessel'' df of
                           None \<Rightarrow> Inr (Str ''Vessel column not found'')
                         | Some vessel_column \<Rightarrow> iloc0 (col df vessel_column)) of
                     Inl e \<Rightarrow> Inl (e, bound)
                   | Inr vessel_name \<Rightarrow>
                       let job_count = int (length (data df));
                           new_job_count =
                             (case sniff ''status'' df of
                                Some status_column \<Rightarrow> count_new (col df status_column)
                              | None \<Rightarrow> 0)
                       in Inr [(''File Name'', Str fname),
                               (''Vessel Name'', vessel_name),
                               (''Total Count of Jobs'', Num job_count),
                               (''New Job Count'', Num new_job_count),
                               (''Date Extracted from File Name'', Str fdate)])))"

text \<open>The \<open>except Exception\<close> branch (lines 42 to 49).\<close>

definition except_branch :: "locals \<Rightarrow> dict" where
  "except_branch l =
     [(''File Name'', Str (case filename l of Some n \<Rightarrow> n | None \<Rightarrow> ''Unknown'')),
      (''Vessel Name'', Str ''Error''),
      (''Total Count of Jobs'', Str ''Error''),
      (''New Job Count'', Str ''Error''),
      (''Date Extracted from File Name'',
         Str (case formatted l of Some d \<Rightarrow> d | None \<Rightarrow> ''Unknown''))]"

definition process_csv_file :: "uploaded_file \<Rightarrow> dict" where
  "process_csv_file f = (case try_body f of Inr d \<Rightarrow> d | Inl (e, l) \<Rightarrow> except_branch l)"

text \<open>Lines 61 to 65 of \<open>app.py\<close>: one record per uploaded file, in upload order.\<close>

fun summary_data :: "uploaded_file list \<Rightarrow> dict list" where
  "summary_data [] = []"
| "summary_data (f # fs) = process_csv_file f # summary_data fs"

section \<open>The summary table of \<open>app.py\<close>\<close>

text \<open>
  \<open>pd.DataFrame(summary_data)\<close> (line 68): the column labels are the keys of the
  records in order of first appearance, and a key that a record lacks reads as \<open>NaN\<close>.
  \<open>unique\<close> is also \<open>Series.unique()\<close>: the distinct entries in order of first appearance.
\<close>

definition unique :: "'a list \<Rightarrow> 'a list" where
  "unique xs = rev (remdups (rev xs))"

definition DataFrame :: "dict list \<Rightarrow> frame" where
  "DataFrame ds = \<lparr>columns = unique (concat (map (map fst) ds)), data = map get ds\<rparr>"

text \<open>\<open>df[c] = series\<close>: an existing column is replaced in place, a new one is appended.\<close>

definition assign :: "frame \<Rightarrow> string \<Rightarrow> pyval list \<Rightarrow> frame" where
  "assign df c vs =
     \<lparr>columns = (if c \<in> set (columns df) then columns df else columns df @ [c]),
      data = map (\<lambda>(r, v). r(c := v)) (zip (data df) vs)\<rparr>"

text \<open>\<open>df[mask]\<close> for a mask computed row by row.\<close>

definition select :: "((string \<Rightarrow> pyval) \<Rightarrow> bool) \<Rightarrow> frame \<Rightarrow> frame" where
  "select p df = df\<lparr>data := filter p (data df)\<rparr>"

subsection \<open>Dates\<close>

text \<open>
  \<open>pd.to_datetime(..., format='%d-%m-%Y', errors='coerce')\<close> on the only strings line 19
  writes into the column: two digits, two digits and four digits joined by dashes,
  or other text. A text of another shape, a day or month that does not exist and a date
  that a nanosecond timestamp cannot hold all give \<open>NaT\<close>.
\<close>

definition digit_val :: "char \<Rightarrow> nat" where
  "digit_val c = of_char c - 48"

definition leap :: "nat \<Rightarrow> bool" where
  "leap y = (y mod 4 = 0 \<and> (y mod 100 \<noteq> 0 \<or> y mod 400 = 0))"

definition days_in_month :: "nat \<Rightarrow> nat \<Rightarrow> nat" where
  "days_in_month y m =
     (if m = 2 then (if leap y then 29 else 28)
      else if m \<in> {4, 6, 9, 11} then 30 else 31)"

fun date_le :: "date \<Rightarrow> date \<Rightarrow> bool" where
  "date_le (y1, m1, d1) (y2, m2, d2) =
     (y1 < y2 \<or> (y1 = y2 \<and> (m1 < m2 \<or> (m1 = m2 \<and> d1 \<le> d2))))"

definition in_bounds :: "date \<Rightarrow> bool" where
  "in_bounds d = (date_le (1677, 9, 22) d \<and> date_le d (2262, 4, 11))"

fun strptime :: "string \<Rightarrow> date option" where
  "strptime [d1, d2, s1, m1, m2, s2, y1, y2, y3, y4] =
     (if list_all is_digit [d1, d2, m1, m2, y1, y2, y3, y4] \<and> s1 = CHR ''-'' \<and> s2 = CHR ''-''
      then let d = 10 * digit_val d1 + digit_val d2;
               m = 10 * digit_val m1 + digit_val m2;
               y = 1000 * digit_val y1 + 100 * digit_val y2 + 10 * digit_val y3 + digit_val y4
           in if 1 \<le> m \<and> m \<le> 12 \<and> 1 \<le> d \<and> d \<le> days_in_month y m \<and> in_bounds (y, m, d)
              then Some (y, m, d) else None
      else None)"
| "strptime s = None"

fun to_datetime :: "pyval \<Rightarrow> pyval" where
  "to_datetime (Str s) = (case strptime s of Some d \<Rightarrow> Timestamp d | None \<Rightarrow> NaT)"
| "to_datetime v = NaT"

text \<open>\<open>.dt.strftime('%d-%m-%Y')\<close> (line 150); a missing timestamp becomes \<open>NaN\<close>.\<close>

fun strftime :: "pyval \<Rightarrow> pyval" where
  "strftime (Timestamp (y, m, d)) =
     Str (zfill 2 (str_nat d) @ ''-'' @ zfill 2 (str_nat m) @ ''-'' @ zfill 4 (str_nat y))"
| "strftime v = NaN"

definition build_table :: "uploaded_file list \<Rightarrow> frame" where
  "build_table uploaded_files =
     (let df = DataFrame (summary_data uploaded_files)
      in assign df ''Date Extracted from File Name''
           (map to_datetime (col df ''Date Extracted from File Name'')))"

subsection \<open>Filters (lines 99 to 107)\<close>

text \<open>
  \<open>date_range\<close> is the tuple the date widget returns; it holds two dates once both ends
  are chosen. The date test compares \<open>.dt.date\<close> of the date column, which line 71 made
  a column of timestamps and \<open>NaT\<close>. Where a row with a timestamp reaches the test,
  \<open>.dt.date\<close> is a series of dates and \<open>NaT\<close> that is compared entry by entry, a
  comparison with \<open>NaT\<close> being false. Where rows reach the test and all of them have
  \<open>NaT\<close>, pandas takes \<open>.dt.date\<close> for a datetime series again, and its
  comparison with a date raises \<open>TypeError\<close>.
\<close>

fun date_ge :: "pyval \<Rightarrow> date \<Rightarrow> bool" where
  "date_ge (Timestamp d) start_date = date_le start_date d"
| "date_ge v start_date = False"

fun date_le_val :: "pyval \<Rightarrow> date \<Rightarrow> bool" where
  "date_le_val (Timestamp d) end_date = date_le d end_date"
| "date_le_val v end_date = False"

definition apply_filters :: "frame \<Rightarrow> pyval list \<Rightarrow> date list \<Rightarrow> exn + frame" where
  "apply_filters df vessel_filter date_range =
     (let filtered_df = df;
          filtered_df =
            (if vessel_filter \<noteq> []
             then select (\<lambda>r. r ''Vessel Name'' \<in> set vessel_filter) filtered_df
             else filtered_df)
      in (case date_range of
            [start_date, end_date] \<Rightarrow>
              if data filtered_df \<noteq> []
                 \<and> list_all (\<lambda>r. r ''Date Extracted from File Name'' = NaT) (data filtered_df)
              then Inl TypeError
              else Inr (select (\<lambda>r. date_ge (r ''Date Extracted from File Name'') start_date
                                    \<and> date_le_val (r ''Date Extracted from File Name'') end_date)
                          filtered_df)
          | _ \<Rightarrow> Inr filtered_df))"

text \<open>Lines 149 and 150: the copy whose date column holds the display strings.\<close>

definition display :: "frame \<Rightarrow> frame" where
  "display filtered_df =
     assign filtered_df ''Date Extracted from File Name''
       (map strftime (col filtered_df ''Date Extracted from File Name''))"

subsection \<open>Sums and order\<close>

text \<open>
  \<open>Series.sum()\<close> of a column of integers. Where the column holds the sentinel string of
  a failed file, pandas raises or concatenates strings; neither is a number, and
  the model gives \<open>None\<close>.
\<close>

fun num_of :: "pyval \<Rightarrow> int option" where
  "num_of (Num i) = Some i"
| "num_of v = None"

fun series_sum :: "pyval list \<Rightarrow> int option" where
  "series_sum [] = Some 0"
| "series_sum (v # vs) =
     (case (num_of v, series_sum vs) of
        (Some i, Some s) \<Rightarrow> Some (i + s)
      | _ \<Rightarrow> None)"

text \<open>
  Python's \<open>==\<close> and \<open><\<close> on the values of the model. A missing value equals nothing,
  not even itself, and is less than nothing. \<open><\<close> between a string and a number raises
  \<open>TypeError\<close>, which \<open>py_sorted\<close> reports for a list that mixes strings with other
  values. The sort is written as a stable insertion sort; on a list of distinct strings
  or of distinct integers every sorting algorithm gives the same list.
\<close>

definition py_eq :: "pyval \<Rightarrow> pyval \<Rightarrow> bool" where
  "py_eq a b = (a = b \<and> a \<noteq> NaN \<and> a \<noteq> NaT)"

fun py_lt :: "pyval \<Rightarrow> pyval \<Rightarrow> bool" where
  "py_lt (Str a) (Str b) = (a < b)"
| "py_lt (Num a) (Num b) = (a < b)"
| "py_lt (Timestamp a) (Timestamp b) = (\<not> date_le b a)"
| "py_lt a b = False"

fun is_str :: "pyval \<Rightarrow> bool" where
  "is_str (Str s) = True"
| "is_str v = False"

fun insert_asc :: "pyval \<Rightarrow> pyval list \<Rightarrow> pyval list" where
  "insert_asc x [] = [x]"
| "insert_asc x (y # ys) = (if py_lt y x then y # insert_asc x ys else x # y # ys)"

definition py_sorted :: "pyval list \<Rightarrow> exn + pyval list" where
  "py_sorted vs =
     (if list_ex is_str vs \<and> list_ex (\<lambda>v. \<not> is_str v) vs then Inl TypeError
      else Inr (foldr insert_asc vs []))"

text \<open>
  \<open>sort_values(c, ascending=False)\<close>: rows in descending order of the entry under \<open>c\<close>,
  rows with a missing entry last.
\<close>

fun insert_desc :: "string \<Rightarrow> (string \<Rightarrow> pyval) \<Rightarrow> (string \<Rightarrow> pyval) list \<Rightarrow> (string \<Rightarrow> pyval) list" where
  "insert_desc c r [] = [r]"
| "insert_desc c r (q # qs) = (if py_lt (r c) (q c) then q # insert_desc c r qs else r # q # qs)"

definition isna :: "pyval \<Rightarrow> bool" where
  "isna v = (v = NaN \<or> v = NaT)"

definition sort_values_desc :: "string \<Rightarrow> frame \<Rightarrow> frame" where
  "sort_values_desc c df =
     df\<lparr>data := foldr (insert_desc c) (filter (\<lambda>r. \<not> isna (r c)) (data df)) []
                 @ filter (\<lambda>r. isna (r c)) (data df)\<rparr>"

subsection \<open>The per-vessel breakdown (lines 153 to 169) and the global totals\<close>

record panel =
  vessel :: pyval
  files :: nat
  sum_total_jobs :: "int option"
  sum_new_jobs :: "int option"
  details :: frame

definition vessel_panel :: "frame \<Rightarrow> pyval \<Rightarrow> panel" where
  "vessel_panel filtered_df_display v =
     (let vessel_data = select (\<lambda>r. py_eq (r ''Vessel Name'') v) filtered_df_display
      in \<lparr>vessel = v,
          files = length (data vessel_data),
          sum_total_jobs = series_sum (col vessel_data ''Total Count of Jobs''),
          sum_new_jobs = series_sum (col vessel_data ''New Job Count''),
          details = sort_values_desc ''Date Extracted from File Name''
                      (vessel_data\<lparr>columns := [''File Name'', ''Date Extracted from File Name'',
                                                 ''Total Count of Jobs'', ''New Job Count'']\<rparr>)\<rparr>)"

definition per_vessel :: "frame \<Rightarrow> exn + panel list" where
  "per_vessel filtered_df =
     (case py_sorted (unique (col filtered_df ''Vessel Name'')) of
        Inl e \<Rightarrow> Inl e
      | Inr vessels \<Rightarrow> Inr (map (vessel_panel (display filtered_df)) vessels))"

text \<open>
  Lines 125 to 127 of \<open>utils.py\<close>: \<open>total_jobs\<close>, \<open>new_jobs\<close> and \<open>existing_jobs\<close> of
  \<open>create_jobs_pie_chart\<close>. Where a count column holds the sentinel string, the sum raises
  \<open>TypeError\<close> or is a string, and then the subtraction raises \<open>TypeError\<close>. The two other
  charts (lines 127 to 137 of \<open>app.py\<close>) raise nothing on a table whose counts are
  integers, so this function decides whether the script gets past the charts.
\<close>

definition create_jobs_pie_chart :: "frame \<Rightarrow> exn + int \<times> int \<times> int" where
  "create_jobs_pie_chart df =
     (case (series_sum (col df ''Total Count of Jobs''), series_sum (col df ''New Job Count'')) of
        (Some total_jobs, Some new_jobs) \<Rightarrow> Inr (total_jobs, new_jobs, total_jobs - new_jobs)
      | _ \<Rightarrow> Inl TypeError)"

section \<open>\<open>create_excel_report\<close>\<close>

text \<open>
  A worksheet cell carries a value (\<open>None\<close> for an empty cell) and the four style
  attributes the function assigns. The colours are the hexadecimal strings of the source.
\<close>

datatype cell_fill = NoFill | PatternFill string

datatype cell_font = DefaultFont | Font string bool

datatype cell_alignment = DefaultAlignment | Alignment string string bool

datatype cell_border = NoBorder | ThinBorder

record cell =
  cell_value :: "pyval option"
  fill :: cell_fill
  font :: cell_font
  alignment :: cell_alignment
  border :: cell_border

text \<open>
  The worksheet: its rows of cells from row 1 (the header) downwards, the conditional
  formatting rules and the tables by cell range, and the width of each column, by
  position from the left.
\<close>

record worksheet =
  cells :: "cell list list"
  conditional_formatting :: "(string \<times> string) list"
  tables :: "(string \<times> string) list"
  column_widths :: "nat list"

text \<open>
  Lines 148 to 153: \<open>df.to_excel(output, index=False)\<close> followed by \<open>load_workbook\<close>, both
  library code. The sheet read back has the column labels in row 1 and one row per row
  of the frame beneath, in the frame's column order; a missing value is an empty cell.
  Every row of the summary table holds a file name, so no row of the sheet is empty and
  \<open>ws.max_row\<close> is the number of rows written: 1 for a frame without rows. Strings with
  control characters, which the writer of the file format refuses, are outside the model.
  The header style pandas writes is replaced attribute by attribute in lines 169 to 173,
  so cells start here with the default style.
\<close>

definition plain :: "pyval option \<Rightarrow> cell" where
  "plain v = \<lparr>cell_value = v, fill = NoFill, font = DefaultFont,
              alignment = DefaultAlignment, border = NoBorder\<rparr>"

definition excel_value :: "pyval \<Rightarrow> pyval option" where
  "excel_value v = (if isna v then None else Some v)"

definition to_excel :: "frame \<Rightarrow> worksheet" where
  "to_excel df =
     \<lparr>cells = map (\<lambda>c. plain (Some (Str c))) (columns df)
               # map (\<lambda>r. map (\<lambda>c. plain (excel_value (r c))) (columns df)) (data df),
      conditional_formatting = [], tables = [], column_widths = []\<rparr>"

definition max_row :: "worksheet \<Rightarrow> nat" where
  "max_row ws = length (cells ws)"

text \<open>Lines 169 to 173: the cells of row 1.\<close>

definition format_headers :: "worksheet \<Rightarrow> worksheet" where
  "format_headers ws =
     (case cells ws of
        [] \<Rightarrow> ws
      | header # rows \<Rightarrow>
          ws\<lparr>cells :=
               map (\<lambda>c. c\<lparr>fill := PatternFill ''1F4E78'', font := Font ''FFFFFF'' True,
                          alignment := Alignment ''center'' ''center'' True,
                          border := ThinBorder\<rparr>) header
               # rows\<rparr>)"

text \<open>Lines 176 to 179: \<open>ws.iter_rows(min_row=2)\<close>.\<close>

definition format_data :: "worksheet \<Rightarrow> worksheet" where
  "format_data ws =
     (case cells ws of
        [] \<Rightarrow> ws
      | header # rows \<Rightarrow>
          ws\<lparr>cells :=
               header
               # map (map (\<lambda>c. c\<lparr>alignment := Alignment ''center'' ''center'' False,
                                  border := ThinBorder\<rparr>)) rows\<rparr>)"

text \<open>
  Lines 182 to 187: the duplicate-value rule on column B. On a sheet that has only the
  header row the range reads \<open>B2:B1\<close>, which openpyxl refuses with \<open>TypeError\<close>.
\<close>

definition add_duplicate_rule :: "worksheet \<Rightarrow> exn + worksheet" where
  "add_duplicate_rule ws =
     (if max_row ws < 2 then Inl TypeError
      else Inr (ws\<lparr>conditional_formatting :=
                    conditional_formatting ws
                    @ [(''B2:B'' @ str_nat (max_row ws), ''duplicateValues FFB266'')]\<rparr>))"

text \<open>
  Lines 190 to 193. \<open>py_range start stop step\<close> is Python's \<open>range\<close> for a positive
  step; \<open>ws[row]\<close> is the row with the 1-based number \<open>row\<close>.
\<close>

definition py_range :: "nat \<Rightarrow> nat \<Rightarrow> nat \<Rightarrow> nat list" where
  "py_range start stop step = map (\<lambda>k. start + k * step) [0..<(stop + step - 1 - start) div step]"

definition fill_row :: "nat \<Rightarrow> worksheet \<Rightarrow> worksheet" where
  "fill_row row ws =
     ws\<lparr>cells := (cells ws)[row - 1 := map (\<lambda>c. c\<lparr>fill := PatternFill ''F0F0F0''\<rparr>) (cells ws ! (row - 1))]\<rparr>"

definition alternate_rows :: "worksheet \<Rightarrow> worksheet" where
  "alternate_rows ws = fold fill_row (py_range 2 (max_row ws + 1) 2) ws"

text \<open>Lines 196 to 206: the table over columns A to E.\<close>

definition add_table :: "worksheet \<Rightarrow> worksheet" where
  "add_table ws = ws\<lparr>tables := tables ws @ [(''JobSummaryTable'', ''A1:E'' @ str_nat (max_row ws))]\<rparr>"

text \<open>
  Lines 209 to 219. \<open>ws.columns\<close> gives the columns from the left, each from row 1 down;
  \<open>str(cell.value)\<close> of an empty cell is \<open>'None'\<close>. The inner loop keeps the longest
  length seen so far.
\<close>

definition cell_str :: "pyval option \<Rightarrow> string" where
  "cell_str v = (case v of None \<Rightarrow> ''None'' | Some x \<Rightarrow> py_str x)"

fun max_length_loop :: "cell list \<Rightarrow> nat \<Rightarrow> nat" where
  "max_length_loop [] max_length = max_length"
| "max_length_loop (c # column) max_length =
     max_length_loop column
       (if length (cell_str (cell_value c)) > max_length then length (cell_str (cell_value c))
        else max_length)"

definition adjust_widths :: "worksheet \<Rightarrow> worksheet" where
  "adjust_widths ws =
     ws\<lparr>column_widths := map (\<lambda>column. max_length_loop column 0 + 2) (transpose (cells ws))\<rparr>"

definition create_excel_report :: "frame \<Rightarrow> exn + worksheet" where
  "create_excel_report df =
     (case add_duplicate_rule (format_data (format_headers (to_excel df))) of
        Inl e \<Rightarrow> Inl e
      | Inr ws \<Rightarrow> Inr (adjust_widths (add_table (alternate_rows ws))))"

section \<open>The script of \<open>app.py\<close>\<close>

text \<open>
  Lines 56 to 177, the branch taken once files are uploaded, with the values of the two
  filter widgets as inputs. An exception anywhere stops the script, and nothing after it
  is shown: sorting the vessel names for the filter widget (line 84), the date widget,
  the filters, the charts, the per-vessel breakdown. The date widget (lines 89 to 96) is
  handed the earliest and the latest date of the table; when no file has a date both are
  \<open>NaT\<close>, which the widget cannot format, and it raises \<open>ValueError\<close>. The page that is
  reached holds the filtered table, the values of the pie chart, the per-vessel panels
  and the table with the display strings.
\<close>

record page =
  page_filtered :: frame
  page_pie :: "int \<times> int \<times> int"
  page_panels :: "panel list"
  page_display :: frame

definition render_page :: "uploaded_file list \<Rightarrow> pyval list \<Rightarrow> date list \<Rightarrow> exn + page" where
  "render_page uploaded_files vessel_filter date_range =
     (let df = build_table uploaded_files
      in case py_sorted (unique (col df ''Vessel Name'')) of
           Inl e \<Rightarrow> Inl e
         | Inr options \<Rightarrow>
             if list_all (\<lambda>v. v = NaT) (col df ''Date Extracted from File Name'')
             then Inl ValueError
             else
             (case apply_filters df vessel_filter date_range of
                Inl e \<Rightarrow> Inl e
              | Inr filtered_df \<Rightarrow>
                  (case create_jobs_pie_chart filtered_df of
                     Inl e \<Rightarrow> Inl e
                   | Inr pie \<Rightarrow>
                       (case per_vessel filtered_df of
                          Inl e \<Rightarrow> Inl e
                        | Inr panels \<Rightarrow>
                            Inr \<lparr>page_filtered = filtered_df, page_pie = pie,
                                 page_panels = panels,
                                 page_display = display filtered_df\<rparr>))))"


section \<open>Notions used to state the properties\<close>

text \<open>
  \<open>run_at cls s i\<close>: the eight characters of \<open>s\<close> from position \<open>i\<close> are digits, and on
  either side the run meets the edge of the string or a character outside the class
  \<open>cls\<close>. With \<open>is_digit\<close> this is an 8-digit run bounded by non-digits; with \<open>is_word\<close>
  the run is bounded by characters that are neither letters, digits nor underscores.
  \<open>dashed s i\<close> is the text \<open>DD-MM-YYYY\<close> read off the run at \<open>i\<close>.
\<close>

definition run_at :: "(char \<Rightarrow> bool) \<Rightarrow> string \<Rightarrow> nat \<Rightarrow> bool" where
  "run_at cls s i =
     (i + 8 \<le> length s \<and> list_all is_digit (take 8 (drop i s))
      \<and> (i = 0 \<or> \<not> cls (s ! (i - 1)))
      \<and> (i + 8 = length s \<or> \<not> cls (s ! (i + 8))))"

definition dashed :: "string \<Rightarrow> nat \<Rightarrow> string" where
  "dashed s i = take 2 (drop i s) @ ''-'' @ take 2 (drop (i + 2) s) @ ''-'' @ take 4 (drop (i + 4) s)"

definition last_opt :: "string \<Rightarrow> char option" where
  "last_opt pre = (if pre = [] then None else Some (last pre))"

text \<open>
  The two kinds of finished cells of a report: a header cell showing a column label, and
  a data cell showing a value, centred with thin borders, striped or not.
\<close>

definition header_cell :: "string \<Rightarrow> cell" where
  "header_cell c =
     \<lparr>cell_value = Some (Str c), fill = PatternFill ''1F4E78'', font = Font ''FFFFFF'' True,
      alignment = Alignment ''center'' ''center'' True, border = ThinBorder\<rparr>"

definition data_cell :: "bool \<Rightarrow> pyval option \<Rightarrow> cell" where
  "data_cell striped v =
     \<lparr>cell_value = v, fill = (if striped then PatternFill ''F0F0F0'' else NoFill),
      font = DefaultFont, alignment = Alignment ''center'' ''center'' False, border = ThinBorder\<rparr>"

text \<open>
  \<open>empty_row\<close> is a row of a parsed CSV all of whose cells are missing, from which example
  rows are built by filling in cells.
\<close>

definition empty_row :: "string \<Rightarrow> pyval" where
  "empty_row c = NaN"

text \<open>The date column of a table, top to bottom.\<close>

definition date_column :: "frame \<Rightarrow> pyval list" where
  "date_column df = col df ''Date Extracted from File Name''"

text \<open>The number of characters a cell shows, none for an empty cell.\<close>

definition text_len :: "pyval option \<Rightarrow> nat" where
  "text_len v = (case v of None \<Rightarrow> 0 | Some x \<Rightarrow> length (py_str x))"

section \<open>The extracted date\<close>

lemma digit_is_word: "is_digit c \<Longrightarrow> is_word c"
  by (simp add: is_digit_def is_word_def Let_def)

lemma match_here_short: "length t < 8 \<Longrightarrow> match_here p t = None"
  by (induction p t rule: match_here.induct) simp_all

lemma long_list: "8 \<le> length t \<Longrightarrow> \<exists>a b c d e f g h r. t = a # b # c # d # e # f # g # h # r"
  by (simp add: numeral_eq_Suc Suc_le_length_iff) blast

lemma run_at_here:
  "run_at is_word (pre @ a # b # c # d # e # f # g # h # r) (length pre) =
     (list_all is_digit [a, b, c, d, e, f, g, h] \<and> \<not> word_opt (last_opt pre)
      \<and> \<not> word_opt (case r of [] \<Rightarrow> None | x # _ \<Rightarrow> Some x))"
  by (cases r) (auto simp add: run_at_def last_opt_def word_opt_def nth_append last_conv_nth)

lemma match_here_run:
  "match_here (last_opt pre) t =
     (if run_at is_word (pre @ t) (length pre)
      then Some (take 2 t, take 2 (drop 2 t), take 4 (drop 4 t)) else None)"
proof (cases "8 \<le> length t")
  case False
  then show ?thesis by (simp add: match_here_short run_at_def)
next
  case True
  then obtain a b c d e f g h r where t: "t = a # b # c # d # e # f # g # h # r"
    using long_list by blast
  show ?thesis
    unfolding t run_at_here
    by (auto simp add: word_boundary_def word_opt_def digit_is_word)
qed

lemma last_opt_snoc: "last_opt (pre @ [c]) = Some c"
  by (simp add: last_opt_def)

lemma re_search_found:
  "run_at is_word (pre @ t) i \<Longrightarrow> length pre \<le> i
   \<Longrightarrow> (\<And>j. length pre \<le> j \<Longrightarrow> j < i \<Longrightarrow> \<not> run_at is_word (pre @ t) j)
   \<Longrightarrow> re_search (last_opt pre) t =
       Some (take 2 (drop i (pre @ t)), take 2 (drop (i + 2) (pre @ t)), take 4 (drop (i + 4) (pre @ t)))"
proof (induction t arbitrary: pre)
  case Nil
  then show ?case by (simp add: run_at_def)
next
  case (Cons c cs)
  show ?case
  proof (cases "i = length pre")
    case True
    with Cons.prems(1) show ?thesis
      by (simp add: match_here_run add.commute)
  next
    case False
    with Cons.prems(2) have lt: "length pre < i" by simp
    then have no: "\<not> run_at is_word (pre @ c # cs) (length pre)"
      using Cons.prems(3) by simp
    have "re_search (last_opt (pre @ [c])) cs =
       Some (take 2 (drop i ((pre @ [c]) @ cs)), take 2 (drop (i + 2) ((pre @ [c]) @ cs)),
             take 4 (drop (i + 4) ((pre @ [c]) @ cs)))"
    proof (rule Cons.IH)
      show "run_at is_word ((pre @ [c]) @ cs) i" using Cons.prems(1) by simp
      show "length (pre @ [c]) \<le> i" using lt by simp
      show "\<not> run_at is_word ((pre @ [c]) @ cs) j" if "length (pre @ [c]) \<le> j" "j < i" for j
        using Cons.prems(3)[of j] that by simp
    qed
    then show ?thesis
      using no by (simp add: match_here_run last_opt_snoc)
  qed
qed

lemma re_search_none:
  "(\<And>j. length pre \<le> j \<Longrightarrow> \<not> run_at is_word (pre @ t) j) \<Longrightarrow> re_search (last_opt pre) t = None"
proof (induction t arbitrary: pre)
  case Nil
  then show ?case by (simp add: match_here_run)
next
  case (Cons c cs)
  have "re_search (last_opt (pre @ [c])) cs = None"
  proof (rule Cons.IH)
    show "\<not> run_at is_word ((pre @ [c]) @ cs) j" if "length (pre @ [c]) \<le> j" for j
      using Cons.prems[of j] that by simp
  qed
  moreover have "\<not> run_at is_word (pre @ c # cs) (length pre)"
    using Cons.prems by simp
  ultimately show ?case
    by (simp add: match_here_run last_opt_snoc)
qed

lemma formatted_date_found:
  assumes "run_at is_word s i" and "\<forall>j \<in> set [0..<i]. \<not> run_at is_word s j"
  shows "formatted_date s = dashed s i"
proof -
  have "re_search (last_opt []) s =
      Some (take 2 (drop i ([] @ s)), take 2 (drop (i + 2) ([] @ s)), take 4 (drop (i + 4) ([] @ s)))"
    by (rule re_search_found) (use assms in auto)
  then show ?thesis
    by (simp add: formatted_date_def dashed_def last_opt_def)
qed

lemma formatted_date_unknown:
  assumes "\<forall>i \<in> set [0..<length s]. \<not> run_at is_word s i"
  shows "formatted_date s = ''Unknown''"
proof -
  have "\<not> run_at is_word s j" for j
    using assms by (cases "j < length s") (auto simp add: run_at_def)
  then have "re_search (last_opt []) s = None"
    by (intro re_search_none) simp
  then show ?thesis
    by (simp add: formatted_date_def last_opt_def)
qed


lemma try_body_Inl:
  "try_body f = Inl (e, l) \<Longrightarrow>
     (name f = None \<and> l = \<lparr>filename = None, formatted = None\<rparr>)
     \<or> (\<exists>s. name f = Some s \<and> l = \<lparr>filename = Some s, formatted = Some (formatted_date s)\<rparr>)"
  by (auto simp add: try_body_def Let_def split: option.splits sum.splits)

lemma try_body_Inr:
  "try_body f = Inr d \<Longrightarrow>
     \<exists>s v t n. name f = Some s \<and> 0 \<le> n \<and>
       d = [(''File Name'', Str s), (''Vessel Name'', v), (''Total Count of Jobs'', Num t),
            (''New Job Count'', Num n), (''Date Extracted from File Name'', Str (formatted_date s))]"
  by (auto simp add: try_body_def Let_def count_new_def split: option.splits sum.splits)

lemma name_date:
  assumes "name f = Some s"
  shows "get (process_csv_file f) ''Date Extracted from File Name'' = Str (formatted_date s)"
proof (cases "try_body f")
  case (Inl p)
  obtain e l where p: "p = (e, l)" by (cases p)
  from try_body_Inl[of f e l] Inl p assms
  have "l = \<lparr>filename = Some s, formatted = Some (formatted_date s)\<rparr>" by auto
  then show ?thesis
    using Inl p by (simp add: process_csv_file_def except_branch_def get_def)
next
  case (Inr d)
  from try_body_Inr[OF Inr] assms show ?thesis
    using Inr by (auto simp add: process_csv_file_def get_def)
qed

lemma word_run_is_digit_run: "run_at is_word s i \<Longrightarrow> run_at is_digit s i"
  using digit_is_word by (auto simp add: run_at_def)

text \<open>
  C1 (as the code has it). For a file whose name is \<open>s\<close>, whatever its content: if \<open>i\<close> is
  the first position of \<open>s\<close> at which eight digits stand between two characters that
  are neither letters, digits nor underscores (or the edge of the string; accented
  letters and the other word characters below code point 256 count as letters), the
  extracted date is \<open>DD-MM-YYYY\<close> read off these eight digits, with no check of day or month; if
  \<open>s\<close> has no such position, and in particular if it has no 8-digit run bounded by
  non-digits, the extracted date is \<open>Unknown\<close>.
\<close>

theorem extracted_date_word_bounded:
  assumes "name f = Some s"
  shows "(run_at is_word s i \<and> (\<forall>j \<in> set [0..<i]. \<not> run_at is_word s j)
            \<longrightarrow> get (process_csv_file f) ''Date Extracted from File Name'' = Str (dashed s i))
       \<and> ((\<forall>j \<in> set [0..<length s]. \<not> run_at is_word s j)
            \<longrightarrow> get (process_csv_file f) ''Date Extracted from File Name'' = Str ''Unknown'')
       \<and> ((\<forall>j \<in> set [0..<length s]. \<not> run_at is_digit s j)
            \<longrightarrow> get (process_csv_file f) ''Date Extracted from File Name'' = Str ''Unknown'')"
proof -
  have "\<forall>j \<in> set [0..<length s]. \<not> run_at is_word s j"
    if "\<forall>j \<in> set [0..<length s]. \<not> run_at is_digit s j"
    using that word_run_is_digit_run by blast
  then show ?thesis
    using assms by (auto simp add: name_date formatted_date_found formatted_date_unknown)
qed

theorem extracted_date_word_bounded_witness:
  "get (process_csv_file \<lparr>name = Some ''jobs 99999999.csv'', read_csv = Inl ReadError\<rparr>)
      ''Date Extracted from File Name'' = Str ''99-99-9999''
   \<and> get (process_csv_file \<lparr>name = Some ''jobs.csv'', read_csv = Inl ReadError\<rparr>)
      ''Date Extracted from File Name'' = Str ''Unknown''"
proof -
  have n1: "name \<lparr>name = Some ''jobs 99999999.csv'', read_csv = Inl ReadError\<rparr> = Some ''jobs 99999999.csv''"
    by simp
  have r1: "run_at is_word ''jobs 99999999.csv'' 5"
    by code_simp
  have m1: "\<forall>j \<in> set [0..<5]. \<not> run_at is_word ''jobs 99999999.csv'' j"
    by code_simp
  have d1: "dashed ''jobs 99999999.csv'' 5 = ''99-99-9999''"
    by code_simp
  have n2: "name \<lparr>name = Some ''jobs.csv'', read_csv = Inl ReadError\<rparr> = Some ''jobs.csv''"
    by simp
  have m2: "\<forall>j \<in> set [0..<length ''jobs.csv'']. \<not> run_at is_word ''jobs.csv'' j"
    by code_simp
  show ?thesis
    using extracted_date_word_bounded[OF n1, of 5] extracted_date_word_bounded[OF n2, of 0] r1 m1 d1 m2
    by simp
qed

text \<open>
  The name \<open>report_01022024.csv\<close> holds the 8-digit run \<open>01022024\<close> between an underscore
  and a dot, both non-digits, and it is the first such run; the underscore is a word
  character, so the pattern does not match and the date is \<open>Unknown\<close>, not \<open>01-02-2024\<close>.
\<close>

theorem digit_bounded_run_counterexample:
  "find (run_at is_digit ''report_01022024.csv'') [0..<19] = Some 7
   \<and> dashed ''report_01022024.csv'' 7 = ''01-02-2024''
   \<and> get (process_csv_file \<lparr>name = Some ''report_01022024.csv'',
                             read_csv = Inr \<lparr>columns = [''Status''], data = []\<rparr>\<rparr>)
        ''Date Extracted from File Name'' = Str ''Unknown''"
  by code_simp

section \<open>Records of single files\<close>

lemma summary_data_map: "summary_data fs = map process_csv_file fs"
  by (induction fs) simp_all

lemma process_keys:
  "map fst (process_csv_file f) =
     [''File Name'', ''Vessel Name'', ''Total Count of Jobs'', ''New Job Count'',
      ''Date Extracted from File Name'']"
proof (cases "try_body f")
  case (Inl p)
  then show ?thesis by (cases p) (simp add: process_csv_file_def except_branch_def)
next
  case (Inr d)
  from try_body_Inr[OF Inr] show ?thesis
    using Inr by (auto simp add: process_csv_file_def)
qed

text \<open>
  C2. \<open>process_csv_file\<close> returns a record with the five keys for every input file. If
  the body of the \<open>try\<close> raises, whatever the exception, Vessel Name, Total Count of
  Jobs and New Job Count are the sentinel \<open>Error\<close>, the File Name is the file's name
  when it was bound before the failure (\<open>Unknown\<close> otherwise), and the date is the one
  extracted from the name when it was bound (\<open>Unknown\<close> otherwise). The batch loop
  appends one record per file, so the records of the files before and after a failing
  file are produced all the same.
\<close>

theorem failures_contained:
  "(try_body f = Inl (e, l) \<longrightarrow>
      get (process_csv_file f) ''Vessel Name'' = Str ''Error''
    \<and> get (process_csv_file f) ''Total Count of Jobs'' = Str ''Error''
    \<and> get (process_csv_file f) ''New Job Count'' = Str ''Error''
    \<and> get (process_csv_file f) ''File Name''
        = Str (case filename l of Some n \<Rightarrow> n | None \<Rightarrow> ''Unknown'')
    \<and> get (process_csv_file f) ''Date Extracted from File Name''
        = Str (case formatted l of Some d \<Rightarrow> d | None \<Rightarrow> ''Unknown'')
    \<and> filename l = name f
    \<and> formatted l = map_option formatted_date (name f))
   \<and> map fst (process_csv_file f) =
        [''File Name'', ''Vessel Name'', ''Total Count of Jobs'', ''New Job Count'',
         ''Date Extracted from File Name'']
   \<and> summary_data (fs @ f # gs) = summary_data fs @ process_csv_file f # summary_data gs"
proof -
  have "filename l = name f \<and> formatted l = map_option formatted_date (name f)"
    if "try_body f = Inl (e, l)"
    using try_body_Inl[OF that] by auto
  moreover have "process_csv_file f = except_branch l" if "try_body f = Inl (e, l)"
    using that by (simp add: process_csv_file_def)
  ultimately show ?thesis
    by (auto simp add: process_keys summary_data_map except_branch_def get_def)
qed

theorem failures_contained_witness:
  "try_body \<lparr>name = Some ''jobs 01022024.csv'', read_csv = Inl ReadError\<rparr>
      = Inl (ReadError, \<lparr>filename = Some ''jobs 01022024.csv'', formatted = Some ''01-02-2024''\<rparr>)
   \<and> get (process_csv_file \<lparr>name = Some ''jobs 01022024.csv'', read_csv = Inl ReadError\<rparr>)
        ''Vessel Name'' = Str ''Error''
   \<and> get (process_csv_file \<lparr>name = Some ''jobs 01022024.csv'', read_csv = Inl ReadError\<rparr>)
        ''File Name'' = Str ''jobs 01022024.csv''
   \<and> get (process_csv_file \<lparr>name = Some ''jobs 01022024.csv'', read_csv = Inl ReadError\<rparr>)
        ''Date Extracted from File Name'' = Str ''01-02-2024''"
proof -
  let ?f = "\<lparr>name = Some ''jobs 01022024.csv'', read_csv = Inl ReadError\<rparr>"
  let ?l = "\<lparr>filename = Some ''jobs 01022024.csv'', formatted = Some ''01-02-2024''\<rparr>"
  have h: "try_body ?f = Inl (ReadError, ?l)"
    by code_simp
  have "get (process_csv_file ?f) ''Vessel Name'' = Str ''Error''
      \<and> get (process_csv_file ?f) ''File Name''
          = Str (case filename ?l of Some n \<Rightarrow> n | None \<Rightarrow> ''Unknown'')
      \<and> get (process_csv_file ?f) ''Date Extracted from File Name''
          = Str (case formatted ?l of Some d \<Rightarrow> d | None \<Rightarrow> ''Unknown'')"
    using failures_contained[of ?f ReadError ?l "[]" "[]"] h by blast
  then show ?thesis
    using h by simp
qed


lemma count_new_filter:
  "count_new (col df c) = int (length (filter (\<lambda>r. strip (py_str (r c)) = ''New'') (data df)))"
  by (simp add: count_new_def col_def filter_map comp_def)

lemma count_new_le: "count_new (col df c) \<le> int (length (data df))"
  by (simp add: count_new_filter)

lemma sniff_None: "sniff key df = None \<longleftrightarrow> (\<forall>c \<in> set (columns df). \<not> str_in key (lower c))"
  by (auto simp add: sniff_def find_None_iff)

lemma try_body_ok:
  assumes "name f = Some s" and "read_csv f = Inr df"
    and "sniff ''vessel'' df = None \<or> data df \<noteq> []"
  shows "\<exists>v. try_body f =
     Inr [(''File Name'', Str s), (''Vessel Name'', v),
          (''Total Count of Jobs'', Num (int (length (data df)))),
          (''New Job Count'', Num (case sniff ''status'' df of
                                      Some c \<Rightarrow> count_new (col df c) | None \<Rightarrow> 0)),
          (''Date Extracted from File Name'', Str (formatted_date s))]"
  using assms
  by (cases "data df")
    (auto simp add: try_body_def Let_def iloc0_def col_def split: option.splits)

lemma try_body_empty:
  assumes "read_csv f = Inr df" and "sniff ''vessel'' df \<noteq> None" and "data df = []"
  shows "\<exists>e l. try_body f = Inl (e, l)"
  using assms
  by (auto simp add: try_body_def Let_def iloc0_def col_def split: option.splits)

text \<open>
  C5 (as the code has it). For a file with a name whose content parses to a frame and
  that either has no vessel column or has at least one data row (so that no exception is
  raised): Total Count of Jobs is the number of data rows; if a status column is sniffed,
  New Job Count is the number of rows whose status value, converted to a string and
  trimmed of surrounding whitespace, is exactly \<open>New\<close>; if no column name contains
  \<open>status\<close> (case-insensitive), New Job Count is 0.
\<close>

theorem job_counts:
  assumes "name f = Some s" and "read_csv f = Inr df"
    and "sniff ''vessel'' df = None \<or> data df \<noteq> []"
  shows "get (process_csv_file f) ''Total Count of Jobs'' = Num (int (length (data df)))
       \<and> (\<forall>c. sniff ''status'' df = Some c \<longrightarrow>
            get (process_csv_file f) ''New Job Count''
              = Num (int (length (filter (\<lambda>r. strip (py_str (r c)) = ''New'') (data df)))))
       \<and> ((\<forall>c \<in> set (columns df). \<not> str_in ''status'' (lower c)) \<longrightarrow>
            get (process_csv_file f) ''New Job Count'' = Num 0)"
proof -
  from try_body_ok[OF assms] obtain v where
    "try_body f =
     Inr [(''File Name'', Str s), (''Vessel Name'', v),
          (''Total Count of Jobs'', Num (int (length (data df)))),
          (''New Job Count'', Num (case sniff ''status'' df of
                                      Some c \<Rightarrow> count_new (col df c) | None \<Rightarrow> 0)),
          (''Date Extracted from File Name'', Str (formatted_date s))]"
    by blast
  then have p: "process_csv_file f =
         [(''File Name'', Str s), (''Vessel Name'', v),
          (''Total Count of Jobs'', Num (int (length (data df)))),
          (''New Job Count'', Num (case sniff ''status'' df of
                                      Some c \<Rightarrow> count_new (col df c) | None \<Rightarrow> 0)),
          (''Date Extracted from File Name'', Str (formatted_date s))]"
    by (simp add: process_csv_file_def)
  have "sniff ''status'' df = None" if "\<forall>c \<in> set (columns df). \<not> str_in ''status'' (lower c)"
    using that by (simp add: sniff_None)
  then show ?thesis
    unfolding p by (auto simp add: get_def count_new_filter)
qed


theorem job_counts_witness:
  "get (process_csv_file
         \<lparr>name = Some ''jobs 01022024.csv'',
          read_csv = Inr \<lparr>columns = [''Vessel Name'', ''Job Status''],
                          data = [(\<lambda>c. NaN)(''Vessel Name'' := Str ''Titan'', ''Job Status'' := Str '' New ''),
                                  (\<lambda>c. NaN)(''Vessel Name'' := Str ''Titan'', ''Job Status'' := Str ''new''),
                                  (\<lambda>c. NaN)(''Vessel Name'' := Str ''Titan'', ''Job Status'' := Str ''New'')]\<rparr>\<rparr>)
        ''Total Count of Jobs'' = Num 3
   \<and> get (process_csv_file
         \<lparr>name = Some ''jobs 01022024.csv'',
          read_csv = Inr \<lparr>columns = [''Vessel Name'', ''Job Status''],
                          data = [(\<lambda>c. NaN)(''Vessel Name'' := Str ''Titan'', ''Job Status'' := Str '' New ''),
                                  (\<lambda>c. NaN)(''Vessel Name'' := Str ''Titan'', ''Job Status'' := Str ''new''),
                                  (\<lambda>c. NaN)(''Vessel Name'' := Str ''Titan'', ''Job Status'' := Str ''New'')]\<rparr>\<rparr>)
        ''New Job Count'' = Num 2"
proof -
  let ?df = "\<lparr>columns = [''Vessel Name'', ''Job Status''],
              data = [(\<lambda>c. NaN)(''Vessel Name'' := Str ''Titan'', ''Job Status'' := Str '' New ''),
                      (\<lambda>c. NaN)(''Vessel Name'' := Str ''Titan'', ''Job Status'' := Str ''new''),
                      (\<lambda>c. NaN)(''Vessel Name'' := Str ''Titan'', ''Job Status'' := Str ''New'')]\<rparr>"
  let ?f = "\<lparr>name = Some ''jobs 01022024.csv'', read_csv = Inr ?df\<rparr>"
  have a1: "name ?f = Some ''jobs 01022024.csv''" by simp
  have a2: "read_csv ?f = Inr ?df" by simp
  have a3: "sniff ''vessel'' ?df = None \<or> data ?df \<noteq> []" by simp
  have st: "sniff ''status'' ?df = Some ''Job Status''" by code_simp
  have len: "int (length (data ?df)) = 3" by simp
  have cnt: "int (length (filter (\<lambda>r. strip (py_str (r ''Job Status'')) = ''New'') (data ?df))) = 2"
    by (simp add: strip_def is_space_def)
  from job_counts[OF a1 a2 a3] st
  have "get (process_csv_file ?f) ''Total Count of Jobs'' = Num (int (length (data ?df)))
      \<and> get (process_csv_file ?f) ''New Job Count''
          = Num (int (length (filter (\<lambda>r. strip (py_str (r ''Job Status'')) = ''New'') (data ?df))))"
    by blast
  then show ?thesis
    by (simp only: len cnt)
qed

text \<open>
  A CSV with the header \<open>Vessel,Status\<close> and no data row has a sniffed status column, zero
  data rows and zero rows with status \<open>New\<close>; reading the vessel name of its first row
  raises, so both counts are the string \<open>Error\<close> rather than 0.
\<close>

theorem job_counts_counterexample:
  "sniff ''status'' \<lparr>columns = [''Vessel'', ''Status''], data = []\<rparr> = Some ''Status''
   \<and> int (length (data \<lparr>columns = [''Vessel'', ''Status''], data = []\<rparr>)) = 0
   \<and> get (process_csv_file
            \<lparr>name = Some ''jobs.csv'', read_csv = Inr \<lparr>columns = [''Vessel'', ''Status''], data = []\<rparr>\<rparr>)
        ''Total Count of Jobs'' = Str ''Error''
   \<and> get (process_csv_file
            \<lparr>name = Some ''jobs.csv'', read_csv = Inr \<lparr>columns = [''Vessel'', ''Status''], data = []\<rparr>\<rparr>)
        ''New Job Count'' = Str ''Error''"
  by code_simp

lemma count_new_nonneg: "0 \<le> count_new vs"
  by (simp add: count_new_def)

lemma try_body_Inr_le:
  "try_body f = Inr d \<Longrightarrow>
     \<exists>n t. 0 \<le> n \<and> n \<le> t \<and>
       get d ''New Job Count'' = Num n \<and> get d ''Total Count of Jobs'' = Num t"
  by (auto simp add: try_body_def Let_def get_def count_new_le count_new_nonneg
      split: option.splits sum.splits)

text \<open>
  C10. For every file processed without an exception, New Job Count and Total Count of
  Jobs are integers with 0 \<le> new \<le> total. A parsed CSV with a vessel-named column and
  zero data rows does not give a total of 0: the record is that of the failure branch,
  with Vessel Name and both counts \<open>Error\<close>.
\<close>

theorem counts_ordered:
  "(try_body f = Inr d \<longrightarrow>
      (\<exists>n t. get (process_csv_file f) ''New Job Count'' = Num n
           \<and> get (process_csv_file f) ''Total Count of Jobs'' = Num t
           \<and> 0 \<le> n \<and> n \<le> t))
   \<and> (read_csv f = Inr df \<and> (\<exists>c \<in> set (columns df). str_in ''vessel'' (lower c)) \<and> data df = [] \<longrightarrow>
        get (process_csv_file f) ''Vessel Name'' = Str ''Error''
      \<and> get (process_csv_file f) ''Total Count of Jobs'' = Str ''Error''
      \<and> get (process_csv_file f) ''New Job Count'' = Str ''Error'')"
proof (intro conjI impI)
  assume "try_body f = Inr d"
  then show "\<exists>n t. get (process_csv_file f) ''New Job Count'' = Num n
           \<and> get (process_csv_file f) ''Total Count of Jobs'' = Num t
           \<and> 0 \<le> n \<and> n \<le> t"
    using try_body_Inr_le[of f d] by (auto simp add: process_csv_file_def)
next
  assume a: "read_csv f = Inr df \<and> (\<exists>c \<in> set (columns df). str_in ''vessel'' (lower c)) \<and> data df = []"
  then have "sniff ''vessel'' df \<noteq> None" by (simp add: sniff_None)
  with a obtain e l where "try_body f = Inl (e, l)"
    using try_body_empty by blast
  then have p: "process_csv_file f = except_branch l"
    by (simp add: process_csv_file_def)
  show "get (process_csv_file f) ''Vessel Name'' = Str ''Error''"
    unfolding p by (simp add: except_branch_def get_def)
  show "get (process_csv_file f) ''Total Count of Jobs'' = Str ''Error''"
    unfolding p by (simp add: except_branch_def get_def)
  show "get (process_csv_file f) ''New Job Count'' = Str ''Error''"
    unfolding p by (simp add: except_branch_def get_def)
qed


theorem counts_ordered_witness:
  "(\<exists>n t. get (process_csv_file
              \<lparr>name = Some ''jobs 01022024.csv'',
               read_csv = Inr \<lparr>columns = [''Vessel Name'', ''Job Status''],
                               data = [(\<lambda>c. NaN)(''Vessel Name'' := Str ''Titan'', ''Job Status'' := Str '' New ''),
                                       (\<lambda>c. NaN)(''Vessel Name'' := Str ''Titan'', ''Job Status'' := Str ''Done'')]\<rparr>\<rparr>)
             ''New Job Count'' = Num n
         \<and> get (process_csv_file
              \<lparr>name = Some ''jobs 01022024.csv'',
               read_csv = Inr \<lparr>columns = [''Vessel Name'', ''Job Status''],
                               data = [(\<lambda>c. NaN)(''Vessel Name'' := Str ''Titan'', ''Job Status'' := Str '' New ''),
                                       (\<lambda>c. NaN)(''Vessel Name'' := Str ''Titan'', ''Job Status'' := Str ''Done'')]\<rparr>\<rparr>)
             ''Total Count of Jobs'' = Num t
         \<and> 0 \<le> n \<and> n \<le> t)
   \<and> get (process_csv_file
           \<lparr>name = Some ''jobs.csv'', read_csv = Inr \<lparr>columns = [''Vessel'', ''Status''], data = []\<rparr>\<rparr>)
        ''Total Count of Jobs'' = Str ''Error''"
proof -
  let ?f = "\<lparr>name = Some ''jobs 01022024.csv'',
             read_csv = Inr \<lparr>columns = [''Vessel Name'', ''Job Status''],
                             data = [(\<lambda>c. NaN)(''Vessel Name'' := Str ''Titan'', ''Job Status'' := Str '' New ''),
                                     (\<lambda>c. NaN)(''Vessel Name'' := Str ''Titan'', ''Job Status'' := Str ''Done'')]\<rparr>\<rparr>"
  let ?d = "[(''File Name'', Str ''jobs 01022024.csv''), (''Vessel Name'', Str ''Titan''),
             (''Total Count of Jobs'', Num 2), (''New Job Count'', Num 1),
             (''Date Extracted from File Name'', Str ''01-02-2024'')]"
  let ?df = "\<lparr>columns = [''Vessel'', ''Status''], data = []\<rparr>"
  let ?g = "\<lparr>name = Some ''jobs.csv'', read_csv = Inr ?df\<rparr>"
  have h1: "try_body ?f = Inr ?d"
    by code_simp
  have "\<exists>c \<in> set [''Vessel'', ''Status'']. str_in ''vessel'' (lower c)"
    by code_simp
  then have h2: "read_csv ?g = Inr ?df \<and> (\<exists>c \<in> set (columns ?df). str_in ''vessel'' (lower c)) \<and> data ?df = []"
    by simp
  show ?thesis
    using counts_ordered[of ?f ?d] counts_ordered[of ?g "[]" ?df] h1 h2 by blast
qed

section \<open>The worksheet of the report\<close>

lemma cells_formatted:
  "cells (format_data (format_headers (to_excel df))) =
     map header_cell (columns df)
     # map (\<lambda>r. map (\<lambda>c. data_cell False (excel_value (r c))) (columns df)) (data df)"
  by (simp add: format_data_def format_headers_def to_excel_def plain_def header_cell_def
      data_cell_def comp_def)

lemma fill_row_length: "length (cells (fill_row r ws)) = length (cells ws)"
  by (simp add: fill_row_def)

lemma fold_fill_row_length: "length (cells (fold fill_row rs ws)) = length (cells ws)"
  by (induction rs arbitrary: ws) (simp_all add: fill_row_length)

lemma fill_row_nth:
  "k < length (cells ws) \<Longrightarrow> 1 \<le> r \<Longrightarrow>
   cells (fill_row r ws) ! k =
     (if Suc k = r then map (\<lambda>c. c\<lparr>fill := PatternFill ''F0F0F0''\<rparr>) (cells ws ! k) else cells ws ! k)"
  by (auto simp add: fill_row_def nth_list_update)

lemma fold_fill_row_nth:
  "k < length (cells ws) \<Longrightarrow> \<forall>r \<in> set rs. 1 \<le> r \<Longrightarrow>
   cells (fold fill_row rs ws) ! k =
     (if Suc k \<in> set rs then map (\<lambda>c. c\<lparr>fill := PatternFill ''F0F0F0''\<rparr>) (cells ws ! k)
      else cells ws ! k)"
proof (induction rs arbitrary: ws)
  case Nil
  then show ?case by simp
next
  case (Cons r rs)
  have k: "k < length (cells (fill_row r ws))"
    using Cons.prems(1) by (simp add: fill_row_length)
  have r: "1 \<le> r" and rs: "\<forall>r \<in> set rs. 1 \<le> r"
    using Cons.prems(2) by simp_all
  show ?case
    using Cons.IH[OF k rs] fill_row_nth[OF Cons.prems(1) r]
    by (auto simp add: comp_def)
qed

lemma set_py_range_2: "set (py_range 2 (n + 1) 2) = {r. 2 \<le> r \<and> r \<le> n \<and> even r}"
proof (rule set_eqI)
  fix r
  have img: "set (py_range 2 (n + 1) 2) = (\<lambda>k. 2 + k * 2) ` {0..<n div 2}"
    by (simp add: py_range_def)
  have "(\<exists>k < n div 2. r = 2 + k * 2) \<longleftrightarrow> (2 \<le> r \<and> r \<le> n \<and> even r)"
  proof
    assume "\<exists>k < n div 2. r = 2 + k * 2"
    then show "2 \<le> r \<and> r \<le> n \<and> even r" by auto
  next
    assume a: "2 \<le> r \<and> r \<le> n \<and> even r"
    then obtain m where m: "r = 2 * m" by (auto elim: evenE)
    with a have "m - 1 < n div 2 \<and> r = 2 + (m - 1) * 2" by auto
    then show "\<exists>k < n div 2. r = 2 + k * 2" by blast
  qed
  then show "r \<in> set (py_range 2 (n + 1) 2) \<longleftrightarrow> r \<in> {r. 2 \<le> r \<and> r \<le> n \<and> even r}"
    unfolding img by (simp add: image_iff Bex_def) 
qed


lemma set_py_range_Suc: "set (py_range 2 (Suc n) 2) = {r. 2 \<le> r \<and> r \<le> n \<and> even r}"
  using set_py_range_2[of n] by simp

lemma alternate_rows_nth:
  assumes "k < length (cells ws)"
  shows "cells (alternate_rows ws) ! k =
     (if odd k then map (\<lambda>c. c\<lparr>fill := PatternFill ''F0F0F0''\<rparr>) (cells ws ! k) else cells ws ! k)"
proof -
  have "\<forall>r \<in> set (py_range 2 (max_row ws + 1) 2). 1 \<le> r"
    by (simp add: set_py_range_Suc)
  moreover have "Suc k \<in> set (py_range 2 (max_row ws + 1) 2) \<longleftrightarrow> odd k"
    using assms by (cases k) (auto simp add: set_py_range_Suc max_row_def)
  ultimately show ?thesis
    using fold_fill_row_nth[OF assms, of "py_range 2 (max_row ws + 1) 2"]
    by (simp add: alternate_rows_def)
qed

lemma max_row_formatted: "max_row (format_data (format_headers (to_excel df))) = Suc (length (data df))"
  by (simp add: max_row_def cells_formatted)

lemma report_exists: "data df \<noteq> [] \<Longrightarrow> \<exists>ws. create_excel_report df = Inr ws"
  by (cases "data df") (simp_all add: create_excel_report_def add_duplicate_rule_def max_row_formatted)

lemma report_Inr:
  assumes "create_excel_report df = Inr ws"
  obtains ws0 where "cells ws0 = cells (format_data (format_headers (to_excel df)))"
    and "ws = adjust_widths (add_table (alternate_rows ws0))"
    and "data df \<noteq> []"
proof -
  let ?w = "format_data (format_headers (to_excel df))"
  from assms have ok: "\<not> max_row ?w < 2"
    by (auto simp add: create_excel_report_def add_duplicate_rule_def split: if_splits)
  then have ne: "data df \<noteq> []"
    by (simp add: max_row_formatted)
  let ?ws0 = "?w\<lparr>conditional_formatting :=
                    conditional_formatting ?w
                    @ [(''B2:B'' @ str_nat (max_row ?w), ''duplicateValues FFB266'')]\<rparr>"
  from assms ok have "ws = adjust_widths (add_table (alternate_rows ?ws0))"
    by (simp add: create_excel_report_def add_duplicate_rule_def)
  moreover have "cells ?ws0 = cells ?w" by simp
  ultimately show ?thesis using ne that by blast
qed


lemma report_length:
  assumes "create_excel_report df = Inr ws"
  shows "length (cells ws) = Suc (length (data df))"
proof -
  from assms obtain ws0 where c: "cells ws0 = cells (format_data (format_headers (to_excel df)))"
    and ws: "ws = adjust_widths (add_table (alternate_rows ws0))"
    by (rule report_Inr)
  show ?thesis
    by (simp add: ws adjust_widths_def add_table_def alternate_rows_def fold_fill_row_length
        c cells_formatted)
qed

lemma report_header:
  assumes "create_excel_report df = Inr ws"
  shows "cells ws ! 0 = map header_cell (columns df)"
proof -
  from assms obtain ws0 where c: "cells ws0 = cells (format_data (format_headers (to_excel df)))"
    and ws: "ws = adjust_widths (add_table (alternate_rows ws0))"
    by (rule report_Inr)
  have "0 < length (cells ws0)" by (simp add: c cells_formatted)
  from alternate_rows_nth[OF this] show ?thesis
    by (simp add: ws adjust_widths_def add_table_def c cells_formatted)
qed

lemma report_data_row:
  assumes "create_excel_report df = Inr ws" and "k < length (data df)"
  shows "cells ws ! Suc k =
     map (\<lambda>c. data_cell (even k) (excel_value ((data df ! k) c))) (columns df)"
proof -
  from assms(1) obtain ws0 where c: "cells ws0 = cells (format_data (format_headers (to_excel df)))"
    and ws: "ws = adjust_widths (add_table (alternate_rows ws0))"
    by (rule report_Inr)
  have "Suc k < length (cells ws0)" using assms(2) by (simp add: c cells_formatted)
  from alternate_rows_nth[OF this] show ?thesis
    using assms(2)
    by (simp add: ws adjust_widths_def add_table_def c cells_formatted data_cell_def comp_def)
qed

lemma report_cells:
  assumes "create_excel_report df = Inr ws"
  shows "cells ws =
     map header_cell (columns df)
     # map (\<lambda>k. map (\<lambda>c. data_cell (even k) (excel_value ((data df ! k) c))) (columns df))
         [0..<length (data df)]"
proof (rule nth_equalityI)
  show "length (cells ws) =
    length (map header_cell (columns df)
     # map (\<lambda>k. map (\<lambda>c. data_cell (even k) (excel_value ((data df ! k) c))) (columns df))
         [0..<length (data df)])"
    by (simp add: report_length[OF assms])
next
  fix i
  assume "i < length (cells ws)"
  then have i: "i < Suc (length (data df))" by (simp add: report_length[OF assms])
  show "cells ws ! i =
    (map header_cell (columns df)
     # map (\<lambda>k. map (\<lambda>c. data_cell (even k) (excel_value ((data df ! k) c))) (columns df))
         [0..<length (data df)]) ! i"
  proof (cases i)
    case 0
    then show ?thesis by (simp add: report_header[OF assms])
  next
    case (Suc k)
    with i have "k < length (data df)" by simp
    then show ?thesis
      unfolding Suc by (simp add: report_data_row[OF assms])
  qed
qed

text \<open>
  C8. For a frame with data rows \<open>create_excel_report\<close> builds a sheet. Take its data row at
  position \<open>k\<close>, counted from 1 at the first data row (row 0 of the sheet is the header),
  and any of its cells. The cell has the flat grey fill exactly when \<open>k\<close> is odd, that is
  in every second data row starting with the first, and no fill otherwise. The fill is
  applied after the alignment and border formatting and leaves them and the content as
  they were: the cell is centred, has thin borders and shows the value of the frame.
\<close>

theorem zebra_striping:
  assumes "1 \<le> k" and "k \<le> length (data df)" and "j < length (columns df)"
  shows "\<exists>ws. create_excel_report df = Inr ws
       \<and> fill (cells ws ! k ! j) = (if odd k then PatternFill ''F0F0F0'' else NoFill)
       \<and> alignment (cells ws ! k ! j) = Alignment ''center'' ''center'' False
       \<and> border (cells ws ! k ! j) = ThinBorder
       \<and> cell_value (cells ws ! k ! j) = excel_value ((data df ! (k - 1)) (columns df ! j))"
proof -
  from assms obtain k' where k: "k = Suc k'" and k': "k' < length (data df)"
    by (cases k) auto
  then have "data df \<noteq> []" by auto
  then obtain ws where ws: "create_excel_report df = Inr ws"
    using report_exists by blast
  show ?thesis
    unfolding k using k' assms(3) ws
    by (simp add: report_data_row[OF ws] data_cell_def)
qed

theorem zebra_striping_witness:
  "\<exists>ws. create_excel_report
            \<lparr>columns = [''File Name''],
             data = [\<lambda>c. Str ''a.csv'', \<lambda>c. Str ''b.csv'', \<lambda>c. Str ''c.csv'']\<rparr> = Inr ws
      \<and> fill (cells ws ! 1 ! 0) = PatternFill ''F0F0F0''
      \<and> fill (cells ws ! 2 ! 0) = NoFill
      \<and> cell_value (cells ws ! 2 ! 0) = Some (Str ''b.csv'')"
proof -
  let ?df = "\<lparr>columns = [''File Name''],
              data = [\<lambda>c. Str ''a.csv'', \<lambda>c. Str ''b.csv'', \<lambda>c. Str ''c.csv'']\<rparr>"
  have h1: "(1::nat) \<le> 1" "1 \<le> length (data ?df)" "0 < length (columns ?df)"
    by simp_all
  have h2: "(1::nat) \<le> 2" "2 \<le> length (data ?df)"
    by simp_all
  from zebra_striping[OF h1] obtain ws where ws: "create_excel_report ?df = Inr ws"
    and a: "fill (cells ws ! 1 ! 0) = (if odd (1::nat) then PatternFill ''F0F0F0'' else NoFill)"
    by blast
  from zebra_striping[OF h2 h1(3)] ws
  have b: "fill (cells ws ! 2 ! 0) = (if odd (2::nat) then PatternFill ''F0F0F0'' else NoFill)
      \<and> cell_value (cells ws ! 2 ! 0) = excel_value ((data ?df ! (2 - 1)) (columns ?df ! 0))"
    by auto
  show ?thesis
    using ws a b by (simp add: excel_value_def isna_def)
qed

lemma max_length_loop_fold:
  "max_length_loop cs m = fold max (map (\<lambda>c. length (cell_str (cell_value c))) cs) m"
  by (induction cs arbitrary: m) (simp_all add: max_def not_less)

lemma max_length_loop_Max:
  "cs \<noteq> [] \<Longrightarrow>
   max_length_loop cs 0 = Max (set (map (\<lambda>c. length (cell_str (cell_value c))) cs))"
proof -
  assume ne: "cs \<noteq> []"
  let ?ls = "map (\<lambda>c. length (cell_str (cell_value c))) cs"
  have "max_length_loop cs 0 = Max (set (0 # ?ls))"
    by (simp only: max_length_loop_fold Max.set_eq_fold)
  also have "\<dots> = Max (insert 0 (set ?ls))" by simp
  also have "\<dots> = max 0 (Max (set ?ls))"
    using ne by (intro Max_insert) auto
  finally show ?thesis by simp
qed


lemma report_row_lengths:
  assumes "create_excel_report df = Inr ws" and "i < length (cells ws)"
  shows "length (cells ws ! i) = length (columns df)"
  using assms(2) unfolding report_cells[OF assms(1)] by (cases i) simp_all

lemma report_transpose:
  assumes "create_excel_report df = Inr ws"
  shows "transpose (cells ws) = map (\<lambda>j. map (\<lambda>row. row ! j) (cells ws)) [0..<length (columns df)]"
proof -
  let ?xs = "cells ws"
  have "transpose ?xs = map (\<lambda>i. map (\<lambda>j. ?xs ! j ! i) [0..<length ?xs]) [0..<length (columns df)]"
  proof (rule transpose_rectangle)
    show "length (columns df) = 0" if "?xs = []"
      using that report_length[OF assms] by simp
    show "length (?xs ! i) = length (columns df)" if "i < length ?xs" for i
      using assms that by (rule report_row_lengths)
  qed
  moreover have "map (\<lambda>j. ?xs ! j ! i) [0..<length ?xs] = map (\<lambda>row. row ! i) ?xs" for i
    by (rule nth_equalityI) simp_all
  ultimately show ?thesis by simp
qed

lemma report_widths:
  assumes "create_excel_report df = Inr ws"
  shows "column_widths ws =
     map (\<lambda>j. max_length_loop (map (\<lambda>row. row ! j) (cells ws)) 0 + 2) [0..<length (columns df)]"
proof -
  from assms obtain ws0 where ws: "ws = adjust_widths (add_table (alternate_rows ws0))"
    by (rule report_Inr)
  have "column_widths ws = map (\<lambda>column. max_length_loop column 0 + 2) (transpose (cells ws))"
    by (simp add: ws adjust_widths_def add_table_def)
  then show ?thesis
    by (simp add: report_transpose[OF assms] comp_def)
qed

lemma fold_max_text_len:
  "4 \<le> h \<Longrightarrow>
   fold max (map (\<lambda>v. length (cell_str v)) vs) h = fold max (map text_len vs) (h :: nat)"
proof (induction vs arbitrary: h)
  case Nil
  then show ?case by simp
next
  case (Cons v vs)
  have "max (length (cell_str v)) h = max (text_len v) h"
    using Cons.prems by (cases v) (simp_all add: cell_str_def text_len_def)
  moreover have "4 \<le> max (text_len v) h"
    using Cons.prems by simp
  ultimately show ?case
    using Cons.IH by simp
qed

lemma Max_text_len:
  "4 \<le> h \<Longrightarrow>
   Max (set (h # map (\<lambda>v. length (cell_str v)) vs)) = Max (set (h # map text_len vs))"
  by (simp only: Max.set_eq_fold fold_max_text_len)

text \<open>
  C9. For every column of a sheet that \<open>create_excel_report\<close> builds, the width it sets is
  the maximum, over all cells of that column including the header cell, of the length of
  \<open>str(cell.value)\<close>, plus 2. The cells of the column are the column label followed by the
  values of the frame in that column. The code measures an empty cell by the four
  characters of \<open>None\<close>; for a column whose label has at least four characters, as
  each of the five labels of the report has, the width is the same when an empty cell
  counts as zero characters.
\<close>

theorem column_width_max_plus_2:
  assumes "create_excel_report df = Inr ws" and "j < length (columns df)"
  shows "column_widths ws ! j
           = Max (set (map (\<lambda>row. length (cell_str (cell_value (row ! j)))) (cells ws))) + 2
       \<and> map (\<lambda>row. cell_value (row ! j)) (cells ws)
           = Some (Str (columns df ! j)) # map (\<lambda>r. excel_value (r (columns df ! j))) (data df)
       \<and> length (column_widths ws) = length (columns df)
       \<and> (4 \<le> length (columns df ! j) \<longrightarrow>
            column_widths ws ! j
              = Max (set (map (\<lambda>row. text_len (cell_value (row ! j))) (cells ws))) + 2)"
proof (intro conjI impI)
  note rc = report_cells[OF assms(1)]
  have ne: "map (\<lambda>row. row ! j) (cells ws) \<noteq> []"
    by (simp add: rc)
  show w: "column_widths ws ! j
           = Max (set (map (\<lambda>row. length (cell_str (cell_value (row ! j)))) (cells ws))) + 2"
    using assms(2) max_length_loop_Max[OF ne]
    by (simp add: report_widths[OF assms(1)] comp_def)
  show vals: "map (\<lambda>row. cell_value (row ! j)) (cells ws)
           = Some (Str (columns df ! j)) # map (\<lambda>r. excel_value (r (columns df ! j))) (data df)"
  proof -
    have "map (\<lambda>k. excel_value ((data df ! k) (columns df ! j))) [0..<length (data df)]
        = map (\<lambda>r. excel_value (r (columns df ! j))) (data df)"
      by (rule nth_equalityI) simp_all
    then show ?thesis
      using assms(2) by (simp add: rc header_cell_def data_cell_def comp_def)
  qed
  show "length (column_widths ws) = length (columns df)"
    by (simp add: report_widths[OF assms(1)])
  assume h: "4 \<le> length (columns df ! j)"
  let ?vs = "map (\<lambda>r. excel_value (r (columns df ! j))) (data df)"
  have "map (\<lambda>row. length (cell_str (cell_value (row ! j)))) (cells ws)
      = map (\<lambda>v. length (cell_str v)) (map (\<lambda>row. cell_value (row ! j)) (cells ws))"
    by (simp add: comp_def)
  also have "\<dots> = length (columns df ! j) # map (\<lambda>v. length (cell_str v)) ?vs"
    unfolding vals by (simp add: cell_str_def)
  finally have a: "map (\<lambda>row. length (cell_str (cell_value (row ! j)))) (cells ws)
      = length (columns df ! j) # map (\<lambda>v. length (cell_str v)) ?vs" .
  have "map (\<lambda>row. text_len (cell_value (row ! j))) (cells ws)
      = map text_len (map (\<lambda>row. cell_value (row ! j)) (cells ws))"
    by (simp add: comp_def)
  also have "\<dots> = length (columns df ! j) # map text_len ?vs"
    unfolding vals by (simp add: text_len_def)
  finally have b: "map (\<lambda>row. text_len (cell_value (row ! j))) (cells ws)
      = length (columns df ! j) # map text_len ?vs" .
  show "column_widths ws ! j
              = Max (set (map (\<lambda>row. text_len (cell_value (row ! j))) (cells ws))) + 2"
    unfolding w a b using Max_text_len[OF h, of ?vs] by simp
qed

theorem column_width_max_plus_2_witness:
  "\<exists>ws. create_excel_report
       \<lparr>columns = [''File Name'', ''Vessel Name''],
        data = [(\<lambda>c. NaN)(''File Name'' := Str ''jobs for titan 01022024.csv''),
                (\<lambda>c. NaN)(''File Name'' := Str ''b.csv'', ''Vessel Name'' := Num 3)]\<rparr> = Inr ws
     \<and> column_widths ws ! 0
         = Max (set (map (\<lambda>row. text_len (cell_value (row ! 0))) (cells ws))) + 2
     \<and> column_widths ws = [29, 13]"
proof -
  let ?df = "\<lparr>columns = [''File Name'', ''Vessel Name''],
        data = [(\<lambda>c. NaN)(''File Name'' := Str ''jobs for titan 01022024.csv''),
                (\<lambda>c. NaN)(''File Name'' := Str ''b.csv'', ''Vessel Name'' := Num 3)]\<rparr>"
  have "data ?df \<noteq> []" by simp
  then obtain ws where ws: "create_excel_report ?df = Inr ws"
    using report_exists by blast
  have h: "0 < length (columns ?df)" by simp
  have h4: "4 \<le> length (columns ?df ! 0)" by simp
  have "map_sum id column_widths (create_excel_report ?df) = Inr [29, 13]"
    by code_simp
  then have w: "column_widths ws = [29, 13]"
    using ws by simp
  show ?thesis
    using column_width_max_plus_2[OF ws h] h4 w ws by blast
qed

section \<open>The columns of the report\<close>



















section \<open>The filters\<close>

text \<open>
  C6, evaluated on two uploaded files: one of the vessel Titan dated 1 February 2024 and
  one of the vessel Atlas whose name holds no date, so that its coerced date is null. With
  Atlas selected and the date range left at its default, the only row that reaches the
  date test has a null date; the test does not exclude it and return an empty table, it
  raises \<open>TypeError\<close>, and the script stops.
\<close>

theorem date_test_raises_on_null_dates:
  "date_column (build_table
      [\<lparr>name = Some ''titan 01022024.csv'',
        read_csv = Inr \<lparr>columns = [''Vessel''], data = [empty_row(''Vessel'' := Str ''Titan'')]\<rparr>\<rparr>,
       \<lparr>name = Some ''atlas.csv'',
        read_csv = Inr \<lparr>columns = [''Vessel''], data = [empty_row(''Vessel'' := Str ''Atlas'')]\<rparr>\<rparr>])
     = [Timestamp (2024, 2, 1), NaT]
   \<and> map_sum id columns (apply_filters (build_table
      [\<lparr>name = Some ''titan 01022024.csv'',
        read_csv = Inr \<lparr>columns = [''Vessel''], data = [empty_row(''Vessel'' := Str ''Titan'')]\<rparr>\<rparr>,
       \<lparr>name = Some ''atlas.csv'',
        read_csv = Inr \<lparr>columns = [''Vessel''], data = [empty_row(''Vessel'' := Str ''Atlas'')]\<rparr>\<rparr>])
      [Str ''Atlas''] [(2024, 2, 1), (2024, 2, 1)]) = Inl TypeError
   \<and> map_sum id page_pie (render_page
      [\<lparr>name = Some ''titan 01022024.csv'',
        read_csv = Inr \<lparr>columns = [''Vessel''], data = [empty_row(''Vessel'' := Str ''Titan'')]\<rparr>\<rparr>,
       \<lparr>name = Some ''atlas.csv'',
        read_csv = Inr \<lparr>columns = [''Vessel''], data = [empty_row(''Vessel'' := Str ''Atlas'')]\<rparr>\<rparr>]
      [Str ''Atlas''] [(2024, 2, 1), (2024, 2, 1)]) = Inl TypeError"
  by code_simp

section \<open>Totals and the per-vessel breakdown\<close>

text \<open>
  C7, evaluated on one uploaded file whose first data row has an empty vessel cell, with
  the default filters. The record has a missing vessel name and one job, which is new. The
  pie chart's totals are 1 job, 1 of them new. The breakdown has one group, for the
  missing name, and since a missing value equals nothing, not even itself, the group has
  no files and its sums are 0: the per-vessel sums do not add up to the totals.
\<close>

theorem missing_vessel_sums_differ:
  "map_sum id page_pie (render_page
      [\<lparr>name = Some ''jobs 01022024.csv'',
        read_csv = Inr \<lparr>columns = [''Vessel'', ''Status''],
                        data = [empty_row(''Status'' := Str ''New'')]\<rparr>\<rparr>]
      [] [(2024, 2, 1), (2024, 2, 1)]) = Inr (1, 1, 0)
   \<and> map_sum id (map vessel \<circ> page_panels) (render_page
      [\<lparr>name = Some ''jobs 01022024.csv'',
        read_csv = Inr \<lparr>columns = [''Vessel'', ''Status''],
                        data = [empty_row(''Status'' := Str ''New'')]\<rparr>\<rparr>]
      [] [(2024, 2, 1), (2024, 2, 1)]) = Inr [NaN]
   \<and> map_sum id (map files \<circ> page_panels) (render_page
      [\<lparr>name = Some ''jobs 01022024.csv'',
        read_csv = Inr \<lparr>columns = [''Vessel'', ''Status''],
                        data = [empty_row(''Status'' := Str ''New'')]\<rparr>\<rparr>]
      [] [(2024, 2, 1), (2024, 2, 1)]) = Inr [0]
   \<and> map_sum id (map sum_total_jobs \<circ> page_panels) (render_page
      [\<lparr>name = Some ''jobs 01022024.csv'',
        read_csv = Inr \<lparr>columns = [''Vessel'', ''Status''],
                        data = [empty_row(''Status'' := Str ''New'')]\<rparr>\<rparr>]
      [] [(2024, 2, 1), (2024, 2, 1)]) = Inr [Some 0]
   \<and> map_sum id (map sum_new_jobs \<circ> page_panels) (render_page
      [\<lparr>name = Some ''jobs 01022024.csv'',
        read_csv = Inr \<lparr>columns = [''Vessel'', ''Status''],
                        data = [empty_row(''Status'' := Str ''New'')]\<rparr>\<rparr>]
      [] [(2024, 2, 1), (2024, 2, 1)]) = Inr [Some 0]"
  by code_simp

text \<open>
  C4, evaluated on two files of the vessel Titan dated 1 February 2024 and 15 January
  2024, with the default filters (no vessel selected, the range from the earliest to the
  latest date). The table shown for the vessel lists 15-01-2024 before 01-02-2024: the
  rows are sorted on the column of display strings, day first, so the older date comes
  first and the rows are not in descending order of date.
\<close>

theorem per_vessel_rows_not_by_date:
  "map_sum id (date_column \<circ> page_filtered) (render_page
      [\<lparr>name = Some ''titan 01022024.csv'',
        read_csv = Inr \<lparr>columns = [''Vessel''], data = [empty_row(''Vessel'' := Str ''Titan'')]\<rparr>\<rparr>,
       \<lparr>name = Some ''titan 15012024.csv'',
        read_csv = Inr \<lparr>columns = [''Vessel''], data = [empty_row(''Vessel'' := Str ''Titan'')]\<rparr>\<rparr>]
      [] [(2024, 1, 15), (2024, 2, 1)])
     = Inr [Timestamp (2024, 2, 1), Timestamp (2024, 1, 15)]
   \<and> map_sum id (map vessel \<circ> page_panels) (render_page
      [\<lparr>name = Some ''titan 01022024.csv'',
        read_csv = Inr \<lparr>columns = [''Vessel''], data = [empty_row(''Vessel'' := Str ''Titan'')]\<rparr>\<rparr>,
       \<lparr>name = Some ''titan 15012024.csv'',
        read_csv = Inr \<lparr>columns = [''Vessel''], data = [empty_row(''Vessel'' := Str ''Titan'')]\<rparr>\<rparr>]
      [] [(2024, 1, 15), (2024, 2, 1)])
     = Inr [Str ''Titan'']
   \<and> map_sum id (map (date_column \<circ> details) \<circ> page_panels) (render_page
      [\<lparr>name = Some ''titan 01022024.csv'',
        read_csv = Inr \<lparr>columns = [''Vessel''], data = [empty_row(''Vessel'' := Str ''Titan'')]\<rparr>\<rparr>,
       \<lparr>name = Some ''titan 15012024.csv'',
        read_csv = Inr \<lparr>columns = [''Vessel''], data = [empty_row(''Vessel'' := Str ''Titan'')]\<rparr>\<rparr>]
      [] [(2024, 1, 15), (2024, 2, 1)])
     = Inr [[Str ''15-01-2024'', Str ''01-02-2024'']]"
  by code_simp

end
